theory Spec2Isabelle
  imports Main
begin

section \<open>Go library functions used by the sources\<close>

text \<open>
  Go strings are byte sequences; they are modelled as \<^typ>\<open>string\<close>. Every separator the
  sources pass to \<open>strings.Split\<close> and \<open>strings.SplitN\<close> is a one-byte literal
  (\<open>"\n"\<close>, \<open>":"\<close>, \<open>"="\<close>), so the separator is a \<^typ>\<open>char\<close> here.
\<close>

definition NL :: char where
  "NL = CHR 0x0A"

definition DQ :: char where
  "DQ = CHR 0x22"

definition BS :: char where
  "BS = CHR 0x5C"

text \<open>\<open>strings.Split(s, sep)\<close>: all pieces between separators; one empty piece for \<open>""\<close>.\<close>

fun Split :: "string \<Rightarrow> char \<Rightarrow> string list" where
  "Split [] sep = [[]]"
| "Split (c # cs) sep =
     (if c = sep then [] # Split cs sep
      else (case Split cs sep of [] \<Rightarrow> [[c]] | p # ps \<Rightarrow> (c # p) # ps))"

text \<open>\<open>strings.Cut\<close>-like search for the first separator: the text before and after it.\<close>

fun cut :: "string \<Rightarrow> char \<Rightarrow> (string \<times> string) option" where
  "cut [] sep = None"
| "cut (c # cs) sep =
     (if c = sep then Some ([], cs)
      else (case cut cs sep of None \<Rightarrow> None | Some (a, b) \<Rightarrow> Some (c # a, b)))"

text \<open>
  \<open>strings.SplitN(s, sep, n)\<close>: \<open>n = 0\<close> gives no piece, \<open>n < 0\<close> all pieces, \<open>n > 0\<close> at
  most \<open>n\<close> pieces, the last one being the unsplit remainder.
\<close>

fun splitUpTo :: "nat \<Rightarrow> string \<Rightarrow> char \<Rightarrow> string list" where
  "splitUpTo 0 s sep = []"
| "splitUpTo (Suc 0) s sep = [s]"
| "splitUpTo (Suc (Suc n)) s sep =
     (case cut s sep of None \<Rightarrow> [s] | Some (a, b) \<Rightarrow> a # splitUpTo (Suc n) b sep)"

definition SplitN :: "string \<Rightarrow> char \<Rightarrow> int \<Rightarrow> string list" where
  "SplitN s sep n = (if n < 0 then Split s sep else splitUpTo (nat n) s sep)"

text \<open>\<open>strings.Contains(s, substr)\<close>.\<close>

fun Contains :: "string \<Rightarrow> string \<Rightarrow> bool" where
  "Contains [] sub = (sub = [])"
| "Contains (c # cs) sub = (take (length sub) (c # cs) = sub \<or> Contains cs sub)"

text \<open>
  \<open>strings.TrimSpace\<close> on the ASCII white space \<open>\t \n \v \f \r\<close> and the blank. (Go also
  trims the multi-byte Unicode spaces; input holding such bytes is outside this model.)
\<close>

definition isSpace :: "char \<Rightarrow> bool" where
  "isSpace c = (c = CHR 0x09 \<or> c = CHR 0x0A \<or> c = CHR 0x0B \<or> c = CHR 0x0C
                \<or> c = CHR 0x0D \<or> c = CHR 0x20)"

definition TrimSpace :: "string \<Rightarrow> string" where
  "TrimSpace s = rev (dropWhile isSpace (rev (dropWhile isSpace s)))"

text \<open>The verb \<open>%d\<close> of \<open>fmt\<close> on a non-negative number.\<close>

definition digit :: "nat \<Rightarrow> char" where
  "digit d = ''0123456789'' ! d"

fun Itoa :: "nat \<Rightarrow> string" where
  "Itoa n = (if n < 10 then [digit n] else Itoa (n div 10) @ [digit (n mod 10)])"

text \<open>
  The verb \<open>%q\<close> of \<open>fmt\<close> (\<open>strconv.Quote\<close>): the text between double quotes, with the
  quote and the backslash escaped, printable ASCII kept, and every other byte below
  \<open>0x80\<close> escaped as Go does. A byte from \<open>0x80\<close> on is written \<open>\xhh\<close>, which is what
  Go does for a byte that is not part of a valid UTF-8 sequence; valid multi-byte
  sequences are outside this model.
\<close>

definition hexdigit :: "nat \<Rightarrow> char" where
  "hexdigit d = ''0123456789abcdef'' ! d"

definition quoteByte :: "char \<Rightarrow> string" where
  "quoteByte c =
     (if c = DQ \<or> c = BS then [BS, c]
      else if 32 \<le> (of_char c :: nat) \<and> (of_char c :: nat) < 127 then [c]
      else if c = CHR 0x07 then [BS, CHR ''a'']
      else if c = CHR 0x08 then [BS, CHR ''b'']
      else if c = CHR 0x0C then [BS, CHR ''f'']
      else if c = CHR 0x0A then [BS, CHR ''n'']
      else if c = CHR 0x0D then [BS, CHR ''r'']
      else if c = CHR 0x09 then [BS, CHR ''t'']
      else if c = CHR 0x0B then [BS, CHR ''v'']
      else [BS, CHR ''x'', hexdigit ((of_char c :: nat) div 16),
            hexdigit ((of_char c :: nat) mod 16)])"

definition Quote :: "string \<Rightarrow> string" where
  "Quote s = [DQ] @ concat (map quoteByte s) @ [DQ]"

text \<open>\<open>os.Getenv\<close>: the value of the variable, the empty string when it is not set.\<close>

type_synonym environ = "string \<Rightarrow> string option"

definition Getenv :: "environ \<Rightarrow> string \<Rightarrow> string" where
  "Getenv env key = (case env key of None \<Rightarrow> [] | Some v \<Rightarrow> v)"

section \<open>builder/funcs.go: the query functions\<close>

text \<open>
  A query function returns an mruby value or an mruby exception
  (\<open>createException\<close>); \<open>getenv\<close> can also end the process, and an index out of range is
  a Go run-time panic.
\<close>

datatype mrb_result =
    Value string
  | Exception string
  | ProcessExit nat string
  | Panic

text \<open>
  The part of \<open>Builder\<close> the queries use. \<open>ImageID\<close> is the image built so far, empty
  before \<open>from\<close> has run. \<open>containerContent\<close> belongs to a file that is not among the
  sources: it is a field here, giving for a path the file's content or the engine's
  error. \<open>engineCalls\<close> records the paths it has been asked for, in order.
\<close>

record Builder =
  ImageID :: string
  containerContent :: "string \<Rightarrow> string + string"
  engineCalls :: "string list"

definition callContent :: "Builder \<Rightarrow> string \<Rightarrow> (string + string) \<times> Builder" where
  "callContent b path =
     (containerContent b path, b\<lparr>engineCalls := engineCalls b @ [path]\<rparr>)"

definition noImageMsg :: string where
  "noImageMsg = ''from has not been called, no image can be used to get the UID''"

definition argCountMsg :: "nat \<Rightarrow> string" where
  "argCountMsg n = ''Expected 1 arg, got '' @ Itoa n"

definition getenv :: "environ \<Rightarrow> Builder \<Rightarrow> string list \<Rightarrow> mrb_result \<times> Builder" where
  "getenv env b args =
     (if length args \<noteq> 1
      then (ProcessExit 1 (''Invalid arg count in getenv: '' @ Itoa (length args) @ '', must be 1''), b)
      else (Value (Getenv env (args ! 0)), b))"

definition read :: "Builder \<Rightarrow> string list \<Rightarrow> mrb_result \<times> Builder" where
  "read b args =
     (if length args \<noteq> 1 then (Exception (argCountMsg (length args)), b)
      else if ImageID b = [] then (Exception noImageMsg, b)
      else (case callContent b (args ! 0) of
              (Inl err, b') \<Rightarrow> (Exception err, b')
            | (Inr content, b') \<Rightarrow> (Value content, b')))"

text \<open>
  The loop of \<open>getuid\<close> and \<open>getgid\<close> over the lines: the first line whose first field
  is the name gives its third field; reading the third field of a line that has fewer
  fields panics.
\<close>

fun lookupEntries :: "string list \<Rightarrow> string \<Rightarrow> string \<Rightarrow> mrb_result" where
  "lookupEntries [] name notFound = Exception notFound"
| "lookupEntries (ent # entries) name notFound =
     (let parts = Split ent (CHR '':'') in
      (case parts of
         [] \<Rightarrow> Panic
       | p0 # _ \<Rightarrow>
           if p0 = name
           then (if 2 < length parts then Value (parts ! 2) else Panic)
           else lookupEntries entries name notFound))"

definition getuid :: "Builder \<Rightarrow> string list \<Rightarrow> mrb_result \<times> Builder" where
  "getuid b args =
     (if length args \<noteq> 1 then (Exception (argCountMsg (length args)), b)
      else if ImageID b = [] then (Exception noImageMsg, b)
      else (case callContent b ''/etc/passwd'' of
              (Inl err, b') \<Rightarrow> (Exception err, b')
            | (Inr content, b') \<Rightarrow>
                (lookupEntries (Split content NL) (args ! 0)
                   (''Could not find user '' @ Quote (args ! 0)), b')))"

definition getgid :: "Builder \<Rightarrow> string list \<Rightarrow> mrb_result \<times> Builder" where
  "getgid b args =
     (if length args \<noteq> 1 then (Exception (argCountMsg (length args)), b)
      else if ImageID b = [] then (Exception noImageMsg, b)
      else (case callContent b ''/etc/group'' of
              (Inl err, b') \<Rightarrow> (Exception err, b')
            | (Inr content, b') \<Rightarrow>
                (lookupEntries (Split content NL) (args ! 0)
                   (''Could not find group '' @ Quote (args ! 0)), b')))"

text \<open>\<open>funcJumpTable\<close>: the queries by name.\<close>

datatype query = Q_getenv | Q_getuid | Q_getgid | Q_read

definition funcJumpTable :: "string \<Rightarrow> query option" where
  "funcJumpTable name =
     (if name = ''getenv'' then Some Q_getenv
      else if name = ''getuid'' then Some Q_getuid
      else if name = ''getgid'' then Some Q_getgid
      else if name = ''read'' then Some Q_read
      else None)"

fun runQuery :: "query \<Rightarrow> environ \<Rightarrow> Builder \<Rightarrow> string list \<Rightarrow> mrb_result \<times> Builder" where
  "runQuery Q_getenv env b args = getenv env b args"
| "runQuery Q_getuid env b args = getuid b args"
| "runQuery Q_getgid env b args = getgid b args"
| "runQuery Q_read env b args = read b args"

section \<open>main.go: the command line\<close>

text \<open>
  What the process prints or logs, in order, and how a function ends: it returns, it
  calls \<open>os.Exit\<close>, or it panics. A panic that nothing recovers ends a Go process with
  status 2.
\<close>

datatype out =
    Print string
  | ShowAppHelp
  | LogError string
  | LogEvalResponse string
  | LogTag string
  | LogFinish string

datatype 'a ending = Done 'a | OsExit nat | Crash

fun exitStatus :: "'a ending \<Rightarrow> nat" where
  "exitStatus (Done x) = 0"
| "exitStatus (OsExit n) = n"
| "exitStatus Crash = 2"

text \<open>
  The values \<open>cli.Context\<close> gives for the flags and arguments the functions below read
  (the colour, terminal, omit and trim flags only fill \<open>Globals\<close> and are left out).
\<close>

record Ctx =
  flag_help :: bool
  flag_var :: "string list"
  flag_no_cache :: bool
  flag_tag :: string
  ctx_args :: "string list"

definition defaultFile :: string where
  "defaultFile = ''box.rb''"

definition getCache :: "environ \<Rightarrow> Ctx \<Rightarrow> bool" where
  "getCache env ctx =
     (let cache = (Getenv env ''NO_CACHE'' = []) in
      if flag_no_cache ctx then False else cache)"

text \<open>\<open>os.Stat("box.rb")\<close>: no error, an error \<open>os.IsNotExist\<close> accepts, another error.\<close>

datatype stat = StatOk | StatNotExist | StatOtherError

definition detectFile :: "stat \<Rightarrow> Ctx \<Rightarrow> out list \<times> string ending" where
  "detectFile boxrb ctx =
     (let a = ctx_args ctx in
      if length a < 1
      then (if boxrb = StatNotExist then ([ShowAppHelp], OsExit 0) else ([], Done defaultFile))
      else ([], Done (a ! 0)))"

text \<open>
  \<open>parseVars\<close>: \<open>parts[1]\<close> is read whatever the length of \<open>parts\<close>; with one part
  only, the index is out of range and the function panics.
\<close>

fun parseVarsLoop :: "string list \<Rightarrow> (string \<rightharpoonup> string) \<Rightarrow> (string \<rightharpoonup> string) ending" where
  "parseVarsLoop [] vars = Done vars"
| "parseVarsLoop (v # vs) vars =
     (let parts = SplitN v (CHR ''='') 2 in
      if length parts < 2 then Crash
      else parseVarsLoop vs (vars(parts ! 0 \<mapsto> parts ! 1)))"

definition parseVars :: "Ctx \<Rightarrow> (string \<rightharpoonup> string) ending" where
  "parseVars ctx = parseVarsLoop (flag_var ctx) Map.empty"

text \<open>
  The builder package is not among the sources. Its constructor, \<open>Run\<close>, \<open>Tag\<close> and the
  multi-build's \<open>Wait\<close> are parameters: what each returns, an error being a message.
\<close>

record BuildConfig =
  cfg_Cache :: bool
  cfg_FileName :: string
  cfg_Vars :: "string \<rightharpoonup> string"

record BuildResult =
  res_Value :: string
  res_Err :: "string option"

record 'b World =
  environment :: environ
  statBoxRb :: stat
  NewBuilder :: "BuildConfig \<Rightarrow> string + 'b"
  Run :: "'b \<Rightarrow> BuildResult"
  Tag :: "'b \<Rightarrow> string \<Rightarrow> string option"
  Wait :: "'b list \<Rightarrow> string option"

definition finishId :: "string \<Rightarrow> string" where
  "finishId ident = (if Contains ident '':'' then SplitN ident (CHR '':'') 2 ! 1 else ident)"

text \<open>The action of the default command (\<open>app.Action\<close>).\<close>

definition action :: "'b World \<Rightarrow> Ctx \<Rightarrow> out list \<times> unit ending" where
  "action w ctx =
     (if flag_help ctx then ([ShowAppHelp], OsExit 0)
      else (case detectFile (statBoxRb w) ctx of
              (o1, OsExit n) \<Rightarrow> (o1, OsExit n)
            | (o1, Crash) \<Rightarrow> (o1, Crash)
            | (o1, Done filename) \<Rightarrow>
               (case parseVars ctx of
                  OsExit n \<Rightarrow> (o1, OsExit n)
                | Crash \<Rightarrow> (o1, Crash)
                | Done vars \<Rightarrow>
                   (case NewBuilder w \<lparr>cfg_Cache = getCache (environment w) ctx,
                                       cfg_FileName = filename, cfg_Vars = vars\<rparr> of
                      Inl err \<Rightarrow> (o1 @ [LogError err], OsExit 1)
                    | Inr b \<Rightarrow>
                       (let result = Run w b in
                        (case res_Err result of
                           Some err \<Rightarrow> (o1 @ [LogError err], OsExit 1)
                         | None \<Rightarrow>
                            (let o2 = o1 @ (if res_Value result \<noteq> []
                                            then [LogEvalResponse (res_Value result)] else []);
                                 tag = flag_tag ctx
                             in if tag \<noteq> []
                                then (case Tag w b tag of
                                        Some err \<Rightarrow>
                                          (o2 @ [LogError (''Can't tag with tag '' @ Quote tag
                                                           @ '': '' @ err)], OsExit 1)
                                      | None \<Rightarrow>
                                          (o2 @ [LogTag tag, LogFinish (finishId (res_Value result))],
                                           Done ()))
                                else (o2 @ [LogFinish (finishId (res_Value result))], Done ()))))))))"



section \<open>The interactive session (\<open>Repl\<close>)\<close>

text \<open>
  A cancellation scope (\<open>context.WithCancel\<close>) is a number; \<open>nextScope\<close> of the session
  is the one the next call of \<open>context.WithCancel\<close> creates, and calling a scope's cancel
  function adds it to \<open>cancelled\<close>.
\<close>

type_synonym scope = nat

record Global =
  OmitFuncs :: "string list"
  TTY :: bool
  Color :: bool
  Cache :: bool
  ShowRun :: bool
  Context :: scope

text \<open>
  Modelled from the spec: the Cancellation Coordinator (\<open>signal.Handler\<close>), whose package
  is not among the sources. It keeps the registered cancel functions and runner handles;
  \<open>AddFunc\<close> registers a cancel function; \<open>Trigger\<close> calls every registered
  cancel function, clears both registries, and is followed by the end of the process in
  terminate mode only (\<open>Exit\<close> set), not in interactive mode.
\<close>

record Handler =
  Exit :: bool
  IgnoreRunners :: bool
  funcs :: "scope list"
  runners :: "nat list"

definition AddFunc :: "Handler \<Rightarrow> scope \<Rightarrow> Handler" where
  "AddFunc h c = h\<lparr>funcs := funcs h @ [c]\<rparr>"

text \<open>The evaluator and the engine are interfaces; their operations are parameters.\<close>

datatype run_error = ParserError string | OtherError string

datatype 'e RunOutcome = Ran int "run_error option" 'e | RunPanics string

datatype 'x Interpreter = NewInterpreter Global 'x "string \<rightharpoonup> string"

record 'x Config =
  Filename :: string
  Globals :: Global
  Interp :: "'x Interpreter"
  Exec :: 'x

record ('x, 'e) Deps =
  NewDocker :: "Global \<Rightarrow> string + 'x"
  NewMRuby :: "'x Config \<Rightarrow> string + 'e"
  RunCode :: "'e \<Rightarrow> string \<Rightarrow> int \<Rightarrow> bool \<Rightarrow> 'e RunOutcome"
  ResultValue :: "'e \<Rightarrow> string"

definition isParserError :: "run_error option \<Rightarrow> bool" where
  "isParserError err = (case err of Some (ParserError m) \<Rightarrow> True | _ \<Rightarrow> False)"

definition errorText :: "run_error \<Rightarrow> string" where
  "errorText err = (case err of ParserError m \<Rightarrow> m | OtherError m \<Rightarrow> m)"

text \<open>
  The session: the fields of \<open>Repl\<close> (\<open>prompt\<close> is the prompt of its readline
  instance), the variables of \<open>doLoop\<close> (\<open>line\<close>, \<open>stackKeep\<close>, \<open>cancel\<close>), the
  process-wide handler and scopes, what has been printed, and the calls of \<open>RunCode\<close>
  made so far, each with its text, its \<open>stackKeep\<close> and the scope in
  \<open>globals.Context\<close> at the call.
\<close>

record 'e Session =
  prompt :: string
  evaluator :: 'e
  globals :: Global
  vars :: "string \<rightharpoonup> string"
  line :: string
  stackKeep :: int
  cancel :: "scope option"
  handler :: Handler
  cancelled :: "scope list"
  nextScope :: scope
  printed :: "out list"
  evalCalls :: "(string \<times> int \<times> scope) list"

datatype ('a, 's) proc = Returns 'a 's | Exits nat 's

definition normalPrompt :: string where
  "normalPrompt = ''box> ''"

definition multilinePrompt :: string where
  "multilinePrompt = ''box*> ''"

definition emit :: "out \<Rightarrow> 'e Session \<Rightarrow> 'e Session" where
  "emit x s = s\<lparr>printed := printed s @ [x]\<rparr>"

definition SetPrompt :: "string \<Rightarrow> 'e Session \<Rightarrow> 'e Session" where
  "SetPrompt p s = s\<lparr>prompt := p\<rparr>"

definition helpText :: string where
  "helpText = [NL] @ ''Thanks for trying box! We don't have on-line help yet :('' @ [NL]
     @ ''If you want, try our documentation here: https://box-builder.github.io/box'' @ [NL]
     @ [NL] @ ''* If you ever need to reset your repl, type '' @ [DQ] @ ''reset'' @ [DQ] @ ''.''
     @ [NL] @ ''* If you need to cancel a ruby statement, press Control+C.'' @ [NL]
     @ [CHR 0x09, CHR 0x09] @ [NL]"

definition printHelp :: "'e Session \<Rightarrow> 'e Session" where
  "printHelp s = emit (Print helpText) s"

text \<open>
  \<open>NewRepl\<close>, together with the initial values of the variables of \<open>doLoop\<close>. \<open>rlErr\<close>
  is the error of \<open>readline.New\<close>, \<open>isTerminal\<close> is \<open>term.IsTerminal(1)\<close>, \<open>h\<close> and
  \<open>n\<close> are the handler and the next scope of the process.
\<close>

definition NewRepl ::
  "('x, 'e) Deps \<Rightarrow> string option \<Rightarrow> bool \<Rightarrow> Handler \<Rightarrow> scope \<Rightarrow> string list
     \<Rightarrow> (string \<rightharpoonup> string) \<Rightarrow> string + 'e Session" where
  "NewRepl D rlErr isTerminal h n omit vs =
     (case rlErr of
        Some err \<Rightarrow> Inl err
      | None \<Rightarrow>
         (let h1 = h\<lparr>Exit := False, IgnoreRunners := True\<rparr>;
              g = \<lparr>OmitFuncs = omit, TTY = isTerminal, Color = True, Cache = False,
                   ShowRun = True, Context = n\<rparr>
          in (case NewDocker D g of
                Inl err \<Rightarrow> Inl err
              | Inr exec \<Rightarrow>
                 (case NewMRuby D \<lparr>Filename = ''repl'', Globals = g,
                                   Interp = NewInterpreter g exec vs, Exec = exec\<rparr> of
                    Inl err \<Rightarrow> Inl err
                  | Inr e \<Rightarrow>
                     Inr \<lparr>prompt = normalPrompt, evaluator = e, globals = g, vars = vs,
                          line = [], stackKeep = 0, cancel = None,
                          handler = AddFunc h1 n, cancelled = [], nextScope = Suc n,
                          printed = [], evalCalls = []\<rparr>))))"

text \<open>
  What the reader goroutine or the signal channel delivers to one iteration. A read
  error is never nil; \<open>ReadFailure\<close> carries the error as \<open>%#v\<close> prints it.
\<close>

datatype read_error = EOF | Interrupt | ReadFailure string

datatype channel_event =
    FromErrChan read_error
  | FromSignals "read_error option"
  | FromLineChan string

definition handleError :: "string \<Rightarrow> read_error \<Rightarrow> 'e Session \<Rightarrow> (bool, 'e Session) proc" where
  "handleError ln err s =
     (case err of
        EOF \<Rightarrow> Exits 0 s
      | Interrupt \<Rightarrow>
          Returns True
            (if ln \<noteq> [] then SetPrompt normalPrompt s
             else emit (Print (''You can press ^D or type '' @ [DQ] @ ''quit'' @ [DQ] @ '' or ''
                               @ [DQ] @ ''exit'' @ [DQ] @ '' to exit the shell'' @ [NL])) s)
      | ReadFailure m \<Rightarrow> Exits 1 (emit (Print (''+++ Error '' @ m @ [NL])) s))"

definition readChannels :: "channel_event \<Rightarrow> 'e Session \<Rightarrow> (string \<times> bool, 'e Session) proc" where
  "readChannels ev s =
     (case ev of
        FromErrChan err \<Rightarrow>
          (case handleError (line s) err s of
             Exits n s' \<Rightarrow> Exits n s'
           | Returns handled s' \<Rightarrow>
               if handled then Returns ([], True) s'
               else Returns (line s @ [] @ [NL], False) s')
      | FromSignals pending \<Rightarrow>
          (let s1 = emit (Print (''Statement canceled.'' @ [NL])) s in
           (case pending of
              None \<Rightarrow> Returns ([], True) s1
            | Some err \<Rightarrow>
               (case handleError (line s) err s1 of
                  Exits n s' \<Rightarrow> Exits n s'
                | Returns handled s' \<Rightarrow> Returns ([], True) s')))
      | FromLineChan tmp \<Rightarrow> Returns (line s @ tmp @ [NL], False) s)"

definition checkQuit ::
  "('x, 'e) Deps \<Rightarrow> string \<Rightarrow> 'e Session \<Rightarrow> (bool \<times> string option, 'e Session) proc" where
  "checkQuit D ln s =
     (let t = TrimSpace ln in
      if t = ''quit'' \<or> t = ''exit'' then Exits 0 s
      else if t = ''help'' then Returns (True, None) (printHelp s)
      else if t = ''reset''
      then (case NewDocker D (globals s) of
              Inl err \<Rightarrow> Returns (False, Some err) s
            | Inr exec \<Rightarrow>
               (case NewMRuby D \<lparr>Filename = ''repl'', Globals = globals s,
                                 Interp = NewInterpreter (globals s) exec (vars s),
                                 Exec = exec\<rparr> of
                  Inl err \<Rightarrow> Returns (False, Some err) s
                | Inr e \<Rightarrow> Returns (True, None) (s\<lparr>evaluator := e\<rparr>)))
      else Returns (False, None) s)"

text \<open>
  The head of an iteration of \<open>doLoop\<close>: the previous scope of the loop is cancelled,
  a new one is created, stored in \<open>globals.Context\<close> and registered with the handler.
\<close>

definition newScope :: "'e Session \<Rightarrow> 'e Session" where
  "newScope s =
     (let s1 = (case cancel s of None \<Rightarrow> s | Some c \<Rightarrow> s\<lparr>cancelled := cancelled s @ [c]\<rparr>);
          c' = nextScope s1;
          s2 = s1\<lparr>globals := (globals s1)\<lparr>Context := c'\<rparr>, cancel := Some c',
                  nextScope := Suc c'\<rparr>
      in s2\<lparr>handler := AddFunc (handler s2) c'\<rparr>)"

text \<open>The evaluation of the buffered text, from the call of \<open>RunCode\<close> to the end of the iteration.\<close>

definition evaluate :: "('x, 'e) Deps \<Rightarrow> 'e Session \<Rightarrow> (unit, 'e Session) proc" where
  "evaluate D s =
     (case RunCode D (evaluator s) (line s) (stackKeep s) False of
        RunPanics m \<Rightarrow>
          Exits 2 (emit (Print (''Aborting due to interpreter error: '' @ m @ [NL]))
                    (s\<lparr>evalCalls := evalCalls s @ [(line s, stackKeep s, Context (globals s))]\<rparr>))
      | Ran newKeep err e' \<Rightarrow>
          (let s1 = s\<lparr>evaluator := e',
                      evalCalls := evalCalls s @ [(line s, stackKeep s, Context (globals s))]\<rparr>
           in if isParserError err \<and> newKeep = stackKeep s1
              then Returns () (SetPrompt multilinePrompt s1)
              else (let s2 = SetPrompt normalPrompt (s1\<lparr>stackKeep := newKeep, line := []\<rparr>)
                    in (case err of
                          Some e \<Rightarrow>
                            Returns () (emit (Print (''+++ Error: '' @ errorText e @ [NL])) s2)
                        | None \<Rightarrow>
                            Returns ()
                              (emit (LogEvalResponse
                                       (if ResultValue D e' \<noteq> [] then ResultValue D e'
                                        else ''Executed!'')) s2)))))"

text \<open>The rest of the iteration, after its head.\<close>

definition body :: "('x, 'e) Deps \<Rightarrow> channel_event \<Rightarrow> 'e Session \<Rightarrow> (unit, 'e Session) proc" where
  "body D ev s =
     (case readChannels ev s of
        Exits n s' \<Rightarrow> Exits n s'
      | Returns (ln, cont) s1 \<Rightarrow>
         (let s2 = s1\<lparr>line := ln\<rparr> in
          if cont then Returns () s2
          else (case checkQuit D ln s2 of
                  Exits n s' \<Rightarrow> Exits n s'
                | Returns (skip, err) s3 \<Rightarrow>
                   (case err of
                      Some e \<Rightarrow> Exits 1 (emit (Print (''+++ Error: '' @ e @ [NL])) s3)
                    | None \<Rightarrow>
                       if skip then Returns () (s3\<lparr>line := []\<rparr>)
                       else evaluate D s3))))"

definition iteration :: "('x, 'e) Deps \<Rightarrow> channel_event \<Rightarrow> 'e Session \<Rightarrow> (unit, 'e Session) proc" where
  "iteration D ev s = body D ev (newScope s)"

text \<open>
  \<open>doLoop\<close> runs until the process ends; here it consumes a finite list of events and
  returns the session it has then reached, waiting for the next event.
\<close>

fun doLoop :: "('x, 'e) Deps \<Rightarrow> channel_event list \<Rightarrow> 'e Session \<Rightarrow> (unit, 'e Session) proc" where
  "doLoop D [] s = Returns () s"
| "doLoop D (ev # evs) s =
     (case iteration D ev s of
        Exits n s' \<Rightarrow> Exits n s'
      | Returns u s' \<Rightarrow> doLoop D evs s')"

definition Loop :: "('x, 'e) Deps \<Rightarrow> channel_event list \<Rightarrow> 'e Session \<Rightarrow> (unit, 'e Session) proc" where
  "Loop D evs s = doLoop D evs (printHelp s)"

text \<open>\<open>runRepl\<close>: the session is made, then \<open>Loop\<close> runs on the events it receives.\<close>

definition runRepl ::
  "('x, 'e) Deps \<Rightarrow> string option \<Rightarrow> bool \<Rightarrow> Handler \<Rightarrow> scope \<Rightarrow> string list
     \<Rightarrow> channel_event list \<Rightarrow> Ctx \<Rightarrow> out list \<times> unit ending" where
  "runRepl D rlErr isTerminal h n omit evs ctx =
     (case parseVars ctx of
        OsExit c \<Rightarrow> ([], OsExit c)
      | Crash \<Rightarrow> ([], Crash)
      | Done vs \<Rightarrow>
         (case NewRepl D rlErr isTerminal h n omit vs of
            Inl err \<Rightarrow> ([LogError (''bootstrapping repl: '' @ err @ [NL])], OsExit 1)
          | Inr r \<Rightarrow>
             (case Loop D evs r of
                Exits c s \<Rightarrow> (printed s, OsExit c)
              | Returns u s \<Rightarrow> (printed s, Done ()))))"






section \<open>Example inputs\<close>

definition passwdExample :: string where
  "passwdExample = ''alice:x:1000:1000::/home/alice:/bin/bash'' @ [NL]"

definition exampleBuilder :: "string \<Rightarrow> Builder" where
  "exampleBuilder img =
     \<lparr>ImageID = img,
      containerContent = (\<lambda>path. if path = ''/etc/passwd'' then Inr passwdExample
                                 else Inl ''no such file''),
      engineCalls = []\<rparr>"

definition exampleEnv :: environ where
  "exampleEnv = [''HOME'' \<mapsto> ''/root'']"

definition exampleWorld :: "stat \<Rightarrow> string option \<Rightarrow> string option \<Rightarrow> string World" where
  "exampleWorld boxrb runErr waitErr =
     \<lparr>environment = Map.empty, statBoxRb = boxrb,
      NewBuilder = (\<lambda>cfg. Inr (cfg_FileName cfg)),
      Run = (\<lambda>b. \<lparr>res_Value = ''sha256:1234'', res_Err = runErr\<rparr>),
      Tag = (\<lambda>b t. None),
      Wait = (\<lambda>bs. waitErr)\<rparr>"

definition exampleCtx :: "string list \<Rightarrow> string list \<Rightarrow> Ctx" where
  "exampleCtx vs as =
     \<lparr>flag_help = False, flag_var = vs, flag_no_cache = False, flag_tag = [], ctx_args = as\<rparr>"











section \<open>The lookup queries\<close>

lemma Split_not_Nil: "Split s sep \<noteq> []"
  by (induction s) (auto split: list.splits)

lemma lookupEntries_absent:
  "list_all (\<lambda>ent. hd (Split ent (CHR '':'')) \<noteq> name) entries \<Longrightarrow>
     lookupEntries entries name notFound = Exception notFound"
  by (induction entries) (auto simp: Let_def Split_not_Nil split: list.splits)

lemma lookup_alice:
  "lookupEntries (Split passwdExample NL) ''alice'' m = Value ''1000''"
  by (simp add: passwdExample_def NL_def)

lemma lookup_bob:
  "lookupEntries (Split passwdExample NL) ''bob'' m = Exception m"
  by (simp add: passwdExample_def NL_def)

lemma Quote_bob: "Quote ''bob'' = [DQ] @ ''bob'' @ [DQ]"
  by (simp add: Quote_def quoteByte_def DQ_def BS_def)

lemma getuid_absent:
  assumes "ImageID b \<noteq> []" and "containerContent b ''/etc/passwd'' = Inr content"
    and "list_all (\<lambda>ent. hd (Split ent (CHR '':'')) \<noteq> name) (Split content NL)"
  shows "fst (getuid b [name]) = Exception (''Could not find user '' @ Quote name)"
  using assms by (simp add: getuid_def callContent_def lookupEntries_absent)

text \<open>
  C1. With \<open>/etc/passwd\<close> in the container holding the line
  \<open>alice:x:1000:1000::/home/alice:/bin/bash\<close> and a newline, \<open>getuid\<close> of \<open>alice\<close>
  returns the string \<open>1000\<close>, and \<open>getuid\<close> of \<open>bob\<close>, a name no line starts with,
  raises the exception \<open>Could not find user "bob"\<close>, whose message contains \<open>bob\<close>.
\<close>

theorem getuid_example:
  assumes "ImageID b \<noteq> []"
    and "containerContent b ''/etc/passwd'' = Inr passwdExample"
  shows "fst (getuid b [''alice'']) = Value ''1000'' \<and>
         fst (getuid b [''bob'']) = Exception (''Could not find user '' @ [DQ] @ ''bob'' @ [DQ]) \<and>
         Contains (''Could not find user '' @ [DQ] @ ''bob'' @ [DQ]) ''bob''"
proof -
  have a: "fst (getuid b [''alice'']) = Value ''1000''"
    using assms by (simp add: getuid_def callContent_def lookup_alice)
  have "fst (getuid b [''bob'']) = Exception (''Could not find user '' @ Quote ''bob'')"
    using assms by (simp add: getuid_def callContent_def lookup_bob)
  then have b: "fst (getuid b [''bob''])
                  = Exception (''Could not find user '' @ [DQ] @ ''bob'' @ [DQ])"
    by (simp add: Quote_bob)
  have c: "Contains (''Could not find user '' @ [DQ] @ ''bob'' @ [DQ]) ''bob''"
    by (simp add: DQ_def)
  from a b c show ?thesis by blast
qed

theorem getuid_example_witness:
  "ImageID (exampleBuilder ''sha256:0001'') \<noteq> [] \<and>
   containerContent (exampleBuilder ''sha256:0001'') ''/etc/passwd'' = Inr passwdExample \<and>
   fst (getuid (exampleBuilder ''sha256:0001'') [''alice'']) = Value ''1000'' \<and>
   fst (getuid (exampleBuilder ''sha256:0001'') [''bob''])
     = Exception (''Could not find user '' @ [DQ] @ ''bob'' @ [DQ])"
proof -
  have h1: "ImageID (exampleBuilder ''sha256:0001'') \<noteq> []"
    by (simp add: exampleBuilder_def)
  have h2: "containerContent (exampleBuilder ''sha256:0001'') ''/etc/passwd'' = Inr passwdExample"
    by (simp add: exampleBuilder_def)
  from getuid_example [OF h1 h2] h1 h2 show ?thesis by blast
qed

section \<open>The guard on the image\<close>

lemma needs_image:
  "q \<noteq> Q_getenv \<Longrightarrow> ImageID b = [] \<Longrightarrow> length args = 1 \<Longrightarrow>
     runQuery q env b args = (Exception noImageMsg, b)"
  by (cases q) (simp_all add: getuid_def getgid_def read_def)





section \<open>\<open>getenv\<close>\<close>

text \<open>
  C9. Called with exactly one argument, \<open>getenv\<close> returns a value and no exception: the
  value of the environment variable, the empty string when it is not set. Among the
  queries of the jump table it is the only one that returns a value for every builder
  without an image.
\<close>

theorem getenv_total:
  assumes "length args = 1"
  shows "getenv env b args = (Value (Getenv env (args ! 0)), b) \<and>
         (env (args ! 0) = None \<longrightarrow> fst (getenv env b args) = Value []) \<and>
         (\<forall>v. env (args ! 0) = Some v \<longrightarrow> fst (getenv env b args) = Value v) \<and>
         (\<forall>q. (\<forall>b' args'. ImageID b' = [] \<and> length args' = 1 \<longrightarrow>
                  (\<exists>v. fst (runQuery q env b' args') = Value v)) \<longleftrightarrow> q = Q_getenv)"
proof -
  have g: "getenv env b args = (Value (Getenv env (args ! 0)), b)"
    using assms by (simp add: getenv_def)
  have only: "(\<forall>b' args'. ImageID b' = [] \<and> length args' = 1 \<longrightarrow>
                  (\<exists>v. fst (runQuery q env b' args') = Value v)) \<longleftrightarrow> q = Q_getenv" for q
  proof
    assume all: "\<forall>b' args'. ImageID b' = [] \<and> length args' = 1 \<longrightarrow>
                  (\<exists>v. fst (runQuery q env b' args') = Value v)"
    show "q = Q_getenv"
    proof (rule ccontr)
      assume q: "q \<noteq> Q_getenv"
      have "ImageID (exampleBuilder []) = []" by (simp add: exampleBuilder_def)
      from needs_image [OF q this, of "[[]]" env]
        all [rule_format, of "exampleBuilder []" "[[]]"] this
      show False by simp
    qed
  next
    assume "q = Q_getenv"
    then show "\<forall>b' args'. ImageID b' = [] \<and> length args' = 1 \<longrightarrow>
                  (\<exists>v. fst (runQuery q env b' args') = Value v)"
      by (simp add: getenv_def)
  qed
  from g only show ?thesis by (simp add: Getenv_def)
qed

theorem getenv_total_witness:
  "length [''HOME''] = 1 \<and>
   fst (getenv exampleEnv (exampleBuilder []) [''HOME'']) = Value ''/root'' \<and>
   length [''SHELL''] = 1 \<and>
   fst (getenv exampleEnv (exampleBuilder []) [''SHELL'']) = Value []"
proof -
  have h1: "length [''HOME''] = 1" and h2: "length [''SHELL''] = 1" by simp_all
  from getenv_total [OF h1, of exampleEnv "exampleBuilder []"]
    getenv_total [OF h2, of exampleEnv "exampleBuilder []"]
  show ?thesis by (simp add: exampleEnv_def Getenv_def)
qed

section \<open>The cache switch\<close>

text \<open>
  C7. Caching is on exactly when \<open>NO_CACHE\<close> is empty in the environment (not set, or
  set to the empty string) and the flag \<open>no-cache\<close> is not given; with the flag, caching
  is off whatever the environment says.
\<close>

theorem getCache_flag_and_env:
  "getCache env ctx = (Getenv env ''NO_CACHE'' = [] \<and> \<not> flag_no_cache ctx) \<and>
   getCache env (ctx\<lparr>flag_no_cache := True\<rparr>) = False \<and>
   (Getenv env ''NO_CACHE'' = [] \<longleftrightarrow> env ''NO_CACHE'' = None \<or> env ''NO_CACHE'' = Some [])"
  by (auto simp: getCache_def Getenv_def split: option.splits)

section \<open>The default plan file\<close>



section \<open>Variables on the command line\<close>

lemma cut_None: "CHR ''='' \<notin> set v \<Longrightarrow> cut v (CHR ''='') = None"
  by (induction v) auto

lemma SplitN_no_sep: "CHR ''='' \<notin> set v \<Longrightarrow> SplitN v (CHR ''='') 2 = [v]"
  by (simp add: SplitN_def numeral_2_eq_2 cut_None)

lemma parseVarsLoop_crash:
  "\<exists>v \<in> set vs. CHR ''='' \<notin> set v \<Longrightarrow> parseVarsLoop vs m = Crash"
  by (induction vs arbitrary: m) (auto simp: Let_def SplitN_no_sep)

lemma parseVars_crash:
  "\<exists>v \<in> set (flag_var ctx). CHR ''='' \<notin> set v \<Longrightarrow> parseVars ctx = Crash"
  by (simp add: parseVars_def parseVarsLoop_crash)

text \<open>
  C8. The claim is that a variable without \<open>=\<close> is a configuration error and that
  \<open>parseVars\<close> never reads out of range. In the code, for \<open>--var foo\<close>, \<open>SplitN\<close> gives
  one part and \<open>parts[1]\<close> is out of range: \<open>parseVars\<close> panics, and so does the default
  command, before any builder is made; the process ends with the status of a panic.
\<close>

theorem parseVars_panics:
  "parseVars (exampleCtx [''foo''] []) = Crash \<and>
   action (exampleWorld StatOk None None) (exampleCtx [''foo''] []) = ([], Crash) \<and>
   exitStatus (snd (action (exampleWorld StatOk None None) (exampleCtx [''foo''] []))) = 2"
  by (simp add: parseVars_def exampleCtx_def SplitN_def numeral_2_eq_2 action_def
        exampleWorld_def detectFile_def)

section \<open>Exit codes\<close>










section \<open>The interactive session\<close>

subsection \<open>Trimming and the parts of the session an iteration leaves alone\<close>















subsection \<open>Incomplete statements\<close>




subsection \<open>Special inputs\<close>




subsection \<open>Cancellation scopes\<close>











end
